theory Spec2Isabelle
  imports Main "HOL-Library.Word"
begin

section \<open>Go values the package works with\<close>

text \<open>
  A Go \<open>error\<close> value. \<open>ErrRecordNotFound\<close> is the sentinel \<open>gorm.ErrRecordNotFound\<close>,
  \<open>ErrorString\<close> is any other \<open>errors.New\<close> value and \<open>WrapError\<close> is an error built
  with \<open>fmt.Errorf("...%w", err)\<close>. Go's \<open>==\<close> on errors is equality of these values;
  \<open>errors.Is\<close> also looks through the wrappers.
\<close>

datatype go_error = ErrRecordNotFound | ErrorString string | WrapError string go_error

fun errors_Is :: "go_error \<Rightarrow> go_error \<Rightarrow> bool" where
  "errors_Is (WrapError m e) target = (WrapError m e = target \<or> errors_Is e target)"
| "errors_Is e target = (e = target)"

text \<open>\<open>uuid.UUID\<close> is an array of 16 bytes; \<open>uuid.Nil\<close> is its zero value.\<close>

type_synonym UUID = "128 word"

definition uuid_Nil :: UUID where
  "uuid_Nil = 0"

text \<open>
  \<open>time.Time\<close>, read through its UTC calendar fields: the presentation that \<open>time.Date\<close>
  builds a value from and that \<open>Time.Format\<close> prints. The zero value \<open>Time{}\<close> is
  January 1 of year 1, 00:00:00 UTC.
\<close>

record Time =
  Year :: int
  Month :: nat
  Day :: nat
  Hour :: nat
  Minute :: nat
  Second :: nat
  Nanosecond :: nat

definition zero_Time :: Time where
  "zero_Time = \<lparr>Year = 1, Month = 1, Day = 1, Hour = 0, Minute = 0, Second = 0, Nanosecond = 0\<rparr>"

text \<open>\<open>time.Date\<close> on fields that are already in range (all \<open>time.Parse\<close> passes to it).\<close>

definition Date :: "int \<Rightarrow> nat \<Rightarrow> nat \<Rightarrow> nat \<Rightarrow> nat \<Rightarrow> nat \<Rightarrow> nat \<Rightarrow> Time" where
  "Date y m d h mi s ns =
     \<lparr>Year = y, Month = m, Day = d, Hour = h, Minute = mi, Second = s, Nanosecond = ns\<rparr>"

text \<open>\<open>gorm.DeletedAt\<close> is an \<open>sql.NullTime\<close>: a time and a validity flag.\<close>

record DeletedAt =
  NullTime :: Time
  Valid :: bool

definition zero_DeletedAt :: DeletedAt where
  "zero_DeletedAt = \<lparr>NullTime = zero_Time, Valid = False\<rparr>"

section \<open>The data model (model.go)\<close>

record DTO =
  ID :: string
  Title :: string
  Author :: string
  PublishedDate :: string
  ImageURL :: string
  Description :: string

record Form =
  Title :: string
  Author :: string
  PublishedDate :: string
  ImageURL :: string
  Description :: string

record Book =
  ID :: UUID
  Title :: string
  Author :: string
  PublishedDate :: Time
  ImageURL :: string
  Description :: string
  CreatedAt :: Time
  UpdatedAt :: Time
  DeletedAt :: DeletedAt

type_synonym Books = "Book list"

section \<open>Package time: parsing and printing with the layout 2006-01-02\<close>

definition errBad :: go_error where
  "errBad = ErrorString ''bad value for field''"

definition errAtoi :: go_error where
  "errAtoi = ErrorString ''time: invalid number''"

definition is_digit_char :: "char \<Rightarrow> bool" where
  "is_digit_char c = (48 \<le> (of_char c :: nat) \<and> (of_char c :: nat) \<le> 57)"

definition digit_of :: "char \<Rightarrow> nat" where
  "digit_of c = of_char c - 48"

definition digit_char :: "nat \<Rightarrow> char" where
  "digit_char n = char_of (48 + n)"

definition isDigit :: "string \<Rightarrow> nat \<Rightarrow> bool" where
  "isDigit s i = (if length s \<le> i then False else is_digit_char (s ! i))"

fun leadingInt :: "string \<Rightarrow> nat \<Rightarrow> nat \<times> string" where
  "leadingInt [] x = (x, [])"
| "leadingInt (c # cs) x =
     (if is_digit_char c then leadingInt cs (x * 10 + digit_of c) else (x, c # cs))"

definition atoi :: "string \<Rightarrow> go_error + int" where
  "atoi s =
     (let neg = (s \<noteq> [] \<and> hd s = CHR ''-'');
          s1 = (if s \<noteq> [] \<and> (hd s = CHR ''-'' \<or> hd s = CHR ''+'') then tl s else s);
          (q, rem) = leadingInt s1 0
      in if rem \<noteq> [] then Inl errAtoi
         else Inr (if neg then - int q else int q))"

text \<open>\<open>getnum\<close> reads one or two digits; with \<open>fixed\<close> it insists on two.\<close>

definition getnum :: "string \<Rightarrow> bool \<Rightarrow> go_error + (nat \<times> string)" where
  "getnum s fixed =
     (if \<not> isDigit s 0 then Inl errBad
      else if \<not> isDigit s 1 then
        (if fixed then Inl errBad else Inr (digit_of (s ! 0), drop 1 s))
      else Inr (digit_of (s ! 0) * 10 + digit_of (s ! 1), drop 2 s))"

text \<open>\<open>skip\<close> consumes the layout's literal text; the separators of this layout hold no space.\<close>

fun skip :: "string \<Rightarrow> string \<Rightarrow> go_error + string" where
  "skip val [] = Inr val"
| "skip [] (p # prefix) = Inl errBad"
| "skip (v # val) (p # prefix) = (if v \<noteq> p then Inl errBad else skip val prefix)"

definition isLeap :: "int \<Rightarrow> bool" where
  "isLeap y = (y mod 4 = 0 \<and> (y mod 100 \<noteq> 0 \<or> y mod 400 = 0))"

definition daysIn :: "nat \<Rightarrow> int \<Rightarrow> nat" where
  "daysIn m y =
     (if m = 2 \<and> isLeap y then 29
      else [31, 28, 31, 30, 31, 30, 31, 31, 30, 31, 30, 31] ! (m - 1))"

text \<open>
  The field-by-field walk of \<open>time.Parse\<close> over the layout \<open>2006-01-02\<close>: a four-digit
  year, a dash, a two-digit month in 1..12, a dash, a two-digit day, no text left over,
  and the day within the month.
\<close>

definition parse_2006_01_02 :: "string \<Rightarrow> go_error + (int \<times> nat \<times> nat)" where
  "parse_2006_01_02 val =
     (if length val < 4 \<or> \<not> isDigit val 0 then Inl errBad
      else case atoi (take 4 val) of Inl e \<Rightarrow> Inl e | Inr y \<Rightarrow>
       (case skip (drop 4 val) ''-'' of Inl e \<Rightarrow> Inl e | Inr v1 \<Rightarrow>
       (case getnum v1 True of Inl e \<Rightarrow> Inl e | Inr (m, v2) \<Rightarrow>
        if m \<le> 0 \<or> 12 < m then Inl (ErrorString ''month out of range'')
        else
       (case skip v2 ''-'' of Inl e \<Rightarrow> Inl e | Inr v3 \<Rightarrow>
       (case getnum v3 True of Inl e \<Rightarrow> Inl e | Inr (d, v4) \<Rightarrow>
        if v4 \<noteq> [] then Inl (ErrorString ''extra text'')
        else if d < 1 \<or> daysIn m y < d then Inl (ErrorString ''day out of range'')
        else Inr (y, m, d))))))"

text \<open>
  \<open>time.Parse("2006-01-02", value)\<close>. Go returns the pair of a time and an error; on
  every error the time is the zero value \<open>Time{}\<close>.
\<close>

definition time_Parse :: "string \<Rightarrow> Time \<times> go_error option" where
  "time_Parse val =
     (case parse_2006_01_02 val of
        Inl e \<Rightarrow> (zero_Time, Some e)
      | Inr (y, m, d) \<Rightarrow> (Date y m d 0 0 0 0, None))"

fun dec_digits :: "nat \<Rightarrow> string" where
  "dec_digits n =
     (if n < 10 then [digit_char n] else dec_digits (n div 10) @ [digit_char (n mod 10)])"

declare dec_digits.simps [simp del]

text \<open>\<open>appendInt\<close>: a minus sign for a negative number, then the decimal digits padded
  with zeros to the width.\<close>

definition appendInt :: "string \<Rightarrow> int \<Rightarrow> nat \<Rightarrow> string" where
  "appendInt b x width =
     (let u = nat \<bar>x\<bar>;
          b1 = (if x < 0 then b @ ''-'' else b);
          ds = dec_digits u
      in b1 @ replicate (width - length ds) (CHR ''0'') @ ds)"

definition zero_pad :: "nat \<Rightarrow> nat \<Rightarrow> string" where
  "zero_pad k n = replicate (k - length (dec_digits n)) (CHR ''0'') @ dec_digits n"

text \<open>\<open>t.Format("2006-01-02")\<close>.\<close>

definition Time_Format :: "Time \<Rightarrow> string" where
  "Time_Format t =
     appendInt (appendInt (appendInt [] (Year t) 4 @ ''-'') (int (Month t)) 2 @ ''-'')
       (int (Day t)) 2"

section \<open>Third-party library calls\<close>

text \<open>
  A JSON-encodable Go value: what \<open>encoding/json\<close> sees of a struct through its \<open>json\<close>
  tags, of a slice and of a nil pointer.
\<close>

datatype json = JNull | JString string | JArray "json list" | JObject "(string \<times> json) list"

text \<open>
  The library calls whose results the handlers branch on or pass along, taken as they
  come: the JSON decoder applied to a request body, \<open>json.Marshal\<close>, \<open>uuid.Parse\<close>,
  \<open>UUID.String\<close>, the identifier \<open>uuid.New\<close> draws for this request, the URL parser
  behind the validator's \<open>url\<close> rule and \<open>utf8.RuneCountInString\<close>.
\<close>

record lib =
  json_Decode :: "string \<Rightarrow> go_error + Form"
  json_Marshal :: "json \<Rightarrow> go_error + string"
  uuid_Parse :: "string \<Rightarrow> go_error + UUID"
  uuid_String :: "UUID \<Rightarrow> string"
  uuid_New :: UUID
  url_Parse_ok :: "string \<Rightarrow> bool"
  RuneCountInString :: "string \<Rightarrow> nat"

section \<open>The mapper (handler.go)\<close>

definition Form_ToModel :: "Form \<Rightarrow> Book" where
  "Form_ToModel f =
     (let (pubDate, _) = time_Parse (Form.PublishedDate f)
      in \<lparr>Book.ID = uuid_Nil,
          Book.Title = Form.Title f,
          Book.Author = Form.Author f,
          Book.PublishedDate = pubDate,
          Book.ImageURL = Form.ImageURL f,
          Book.Description = Form.Description f,
          Book.CreatedAt = zero_Time,
          Book.UpdatedAt = zero_Time,
          Book.DeletedAt = zero_DeletedAt\<rparr>)"

definition Book_ToDto :: "lib \<Rightarrow> Book \<Rightarrow> DTO" where
  "Book_ToDto l b =
     \<lparr>DTO.ID = uuid_String l (Book.ID b),
      DTO.Title = Book.Title b,
      DTO.Author = Book.Author b,
      DTO.PublishedDate = Time_Format (Book.PublishedDate b),
      DTO.ImageURL = Book.ImageURL b,
      DTO.Description = Book.Description b\<rparr>"



section \<open>Form validation\<close>

text \<open>
  The rules named by the \<open>validate\<close> tags of \<open>Form\<close>: \<open>required\<close>, \<open>max=n\<close>,
  \<open>alphaspace\<close>, \<open>datetime=2006-01-02\<close> and \<open>url\<close>.
\<close>

datatype rule = Required | Max nat | Alphaspace | Datetime_2006_01_02 | Url

record FieldError =
  Field :: string
  Tag :: rule

text \<open>
  Modelled from the spec: the rule \<open>alphaspace\<close> is registered by the package
  \<open>hello/util/validator\<close>, which is not among the sources. The spec has the author
  "alphabetic-and-spaces only".
\<close>

definition is_alpha_char :: "char \<Rightarrow> bool" where
  "is_alpha_char c =
     ((65 \<le> (of_char c :: nat) \<and> (of_char c :: nat) \<le> 90)
      \<or> (97 \<le> (of_char c :: nat) \<and> (of_char c :: nat) \<le> 122))"

definition isAlphaSpace :: "string \<Rightarrow> bool" where
  "isAlphaSpace s = list_all (\<lambda>c. is_alpha_char c \<or> c = CHR '' '') s"

text \<open>
  The validator's built-in \<open>url\<close> rule: it refuses the empty string before it hands the
  text to the URL parser.
\<close>

definition isURL :: "lib \<Rightarrow> string \<Rightarrow> bool" where
  "isURL l s = (if length s = 0 then False else url_Parse_ok l s)"

fun check_rule :: "lib \<Rightarrow> rule \<Rightarrow> string \<Rightarrow> bool" where
  "check_rule l Required s = (s \<noteq> [])"
| "check_rule l (Max n) s = (RuneCountInString l s \<le> n)"
| "check_rule l Alphaspace s = isAlphaSpace s"
| "check_rule l Datetime_2006_01_02 s = (snd (time_Parse s) = None)"
| "check_rule l Url s = isURL l s"

text \<open>
  The validator walks a field's rules in the order of the tag and stops at the first one
  that fails; a tag without \<open>omitempty\<close> is checked on an empty value too.
\<close>

fun first_failure :: "lib \<Rightarrow> rule list \<Rightarrow> string \<Rightarrow> rule option" where
  "first_failure l [] s = None"
| "first_failure l (r # rs) s = (if check_rule l r s then first_failure l rs s else Some r)"

text \<open>The fields of \<open>Form\<close> in declaration order, each with its \<open>validate\<close> tag.\<close>

definition Form_validate_tags :: "(string \<times> (Form \<Rightarrow> string) \<times> rule list) list" where
  "Form_validate_tags =
     [(''Title'', Form.Title, [Required, Max 255]),
      (''Author'', Form.Author, [Required, Alphaspace, Max 255]),
      (''PublishedDate'', Form.PublishedDate, [Required, Datetime_2006_01_02]),
      (''ImageURL'', Form.ImageURL, [Url]),
      (''Description'', Form.Description, [])]"

definition field_errors :: "lib \<Rightarrow> Form \<Rightarrow> string \<times> (Form \<Rightarrow> string) \<times> rule list \<Rightarrow> FieldError list" where
  "field_errors l f fld =
     (case fld of (name, get, rules) \<Rightarrow>
        (case first_failure l rules (get f) of
           None \<Rightarrow> []
         | Some r \<Rightarrow> [\<lparr>Field = name, Tag = r\<rparr>]))"

text \<open>
  \<open>validator.Struct(form)\<close>: every field is visited; the result is the list of the
  fields' errors, the empty list standing for the nil error.
\<close>

definition validator_Struct :: "lib \<Rightarrow> Form \<Rightarrow> FieldError list" where
  "validator_Struct l f = concat (map (field_errors l f) Form_validate_tags)"

definition field_violated :: "lib \<Rightarrow> Form \<Rightarrow> string \<times> (Form \<Rightarrow> string) \<times> rule list \<Rightarrow> bool" where
  "field_violated l f fld =
     (case fld of (name, get, rules) \<Rightarrow> list_ex (\<lambda>r. \<not> check_rule l r (get f)) rules)"

definition rule_name :: "rule \<Rightarrow> string" where
  "rule_name r =
     (case r of Required \<Rightarrow> ''required'' | Max n \<Rightarrow> ''max'' | Alphaspace \<Rightarrow> ''alphaspace''
      | Datetime_2006_01_02 \<Rightarrow> ''datetime'' | Url \<Rightarrow> ''url'')"

text \<open>
  What a complete report says of one field with a broken rule: the name of the field and
  the name of the first rule of its tag that the value breaks.
\<close>

definition broken_rule :: "lib \<Rightarrow> Form \<Rightarrow> string \<times> (Form \<Rightarrow> string) \<times> rule list \<Rightarrow> rule" where
  "broken_rule l f fld =
     (case fld of (name, get, rules) \<Rightarrow> hd (filter (\<lambda>r. \<not> check_rule l r (get f)) rules))"

definition violation_json :: "lib \<Rightarrow> Form \<Rightarrow> string \<times> (Form \<Rightarrow> string) \<times> rule list \<Rightarrow> json" where
  "violation_json l f fld =
     JObject [(''field'', JString (fst fld)),
              (''rule'', JString (rule_name (broken_rule l f fld)))]"

text \<open>
  Modelled from the spec: \<open>validatorUtil.ToErrResponse\<close> is not among the sources. The
  spec has the result of validation be an "ordered collection of field-level violations,
  each naming the offending field and the rule that failed", serialised in full.
\<close>

definition ToErrResponse :: "FieldError list \<Rightarrow> json" where
  "ToErrResponse errs =
     JArray (map (\<lambda>e. JObject [(''field'', JString (Field e)),
                                (''rule'', JString (rule_name (Tag e)))]) errs)"

section \<open>The response writer and the error helpers\<close>

text \<open>
  \<open>http.ResponseWriter\<close>: the status line once it is written, and the body. The first
  \<open>WriteHeader\<close> fixes the status, a \<open>Write\<close> before any \<open>WriteHeader\<close> sends 200, and
  so does a handler that returns without writing.
\<close>

record ResponseWriter =
  wroteHeader :: "nat option"
  body :: string

definition new_ResponseWriter :: ResponseWriter where
  "new_ResponseWriter = \<lparr>wroteHeader = None, body = []\<rparr>"

definition WriteHeader :: "ResponseWriter \<Rightarrow> nat \<Rightarrow> ResponseWriter" where
  "WriteHeader w code = (if wroteHeader w = None then w\<lparr>wroteHeader := Some code\<rparr> else w)"

definition Write :: "ResponseWriter \<Rightarrow> string \<Rightarrow> ResponseWriter" where
  "Write w bs =
     (let w1 = (if wroteHeader w = None then w\<lparr>wroteHeader := Some 200\<rparr> else w)
      in w1\<lparr>body := body w1 @ bs\<rparr>)"

definition status :: "ResponseWriter \<Rightarrow> nat" where
  "status w = (case wroteHeader w of None \<Rightarrow> 200 | Some code \<Rightarrow> code)"


text \<open>The response bodies that package \<open>err\<close> declares, taken as they are.\<close>

record err_pkg =
  RespDBDataInsertFailure :: string
  RespDBDataAccessFailure :: string
  RespDBDataUpdateFailure :: string
  RespDBDataRemoveFailure :: string
  RespJSONEncodeFailure :: string
  RespJSONDecodeFailure :: string
  RespInvalidURLParamID :: string

text \<open>
  Modelled from the spec: the helpers \<open>ServerError\<close>, \<open>BadRequest\<close> and
  \<open>ValidationErrors\<close> of package \<open>err\<close> are not among the sources. The spec has the
  first report a server-side failure (status 500), the second a client-side bad request
  (status 400) and the third a validation failure with unprocessable-entity semantics
  (status 422), each with the given bytes as the body.
\<close>

definition ServerError :: "ResponseWriter \<Rightarrow> string \<Rightarrow> ResponseWriter" where
  "ServerError w error = Write (WriteHeader w 500) error"

definition BadRequest :: "ResponseWriter \<Rightarrow> string \<Rightarrow> ResponseWriter" where
  "BadRequest w error = Write (WriteHeader w 400) error"

definition ValidationErrors :: "ResponseWriter \<Rightarrow> string \<Rightarrow> ResponseWriter" where
  "ValidationErrors w resp = Write (WriteHeader w 422) resp"

section \<open>JSON output\<close>

text \<open>A \<open>DTO\<close> as the encoder sees it, through the \<open>json\<close> tags of the struct.\<close>

definition DTO_json :: "DTO \<Rightarrow> json" where
  "DTO_json d =
     JObject [(''id'', JString (DTO.ID d)),
              (''title'', JString (DTO.Title d)),
              (''Author'', JString (DTO.Author d)),
              (''published_date'', JString (DTO.PublishedDate d)),
              (''image_url'', JString (DTO.ImageURL d)),
              (''description'', JString (DTO.Description d))]"


text \<open>
  \<open>json.NewEncoder(w).Encode(v)\<close>: the JSON text of \<open>v\<close> followed by a newline is
  written to \<open>w\<close>; when \<open>v\<close> cannot be encoded nothing is written.
\<close>

definition Encoder_Encode :: "lib \<Rightarrow> ResponseWriter \<Rightarrow> json \<Rightarrow> ResponseWriter \<times> go_error option" where
  "Encoder_Encode l w v =
     (case json_Marshal l v of
        Inl err \<Rightarrow> (w, Some err)
      | Inr bs \<Rightarrow> (Write w (bs @ [CHR 0x0A]), None))"

section \<open>The repository and the request\<close>

text \<open>
  Modelled from the spec: \<open>Repository\<close> (repository.go) is not among the sources. The spec
  gives the interface the handlers consume: \<open>List() \<rightarrow> (records, error)\<close>,
  \<open>Create(model) \<rightarrow> (rowsAffected, error)\<close>, \<open>Read(id) \<rightarrow> (model, error)\<close>,
  \<open>Update(model) \<rightarrow> (rowsAffected, error)\<close>, \<open>Delete(id) \<rightarrow> (rowsAffected, error)\<close>.
  Each call also takes the store to its next state.
\<close>

record 'db Repository =
  repo_List :: "'db \<Rightarrow> (Books \<times> go_error option) \<times> 'db"
  repo_Create :: "Book \<Rightarrow> 'db \<Rightarrow> (int \<times> go_error option) \<times> 'db"
  repo_Read :: "UUID \<Rightarrow> 'db \<Rightarrow> (Book \<times> go_error option) \<times> 'db"
  repo_Update :: "Book \<Rightarrow> 'db \<Rightarrow> (int \<times> go_error option) \<times> 'db"
  repo_Delete :: "UUID \<Rightarrow> 'db \<Rightarrow> (int \<times> go_error option) \<times> 'db"

text \<open>\<open>API\<close>: the repository and the validator instance, as \<open>New\<close> stores them.\<close>

record 'db API =
  repository :: "'db Repository"
  validator :: "Form \<Rightarrow> FieldError list"

definition New :: "'db Repository \<Rightarrow> (Form \<Rightarrow> FieldError list) \<Rightarrow> 'db API" where
  "New repo v = \<lparr>repository = repo, validator = v\<rparr>"

text \<open>What a handler reads of \<open>*http.Request\<close>: the body and the route parameters.\<close>

record Request =
  Body :: string
  URLParams :: "(string \<times> string) list"

definition chi_URLParam :: "Request \<Rightarrow> string \<Rightarrow> string" where
  "chi_URLParam r key = (case map_of (URLParams r) key of None \<Rightarrow> [] | Some v \<Rightarrow> v)"

section \<open>The handlers (handler.go)\<close>


definition API_Create ::
  "'db API \<Rightarrow> lib \<Rightarrow> err_pkg \<Rightarrow> ResponseWriter \<Rightarrow> Request \<Rightarrow> 'db \<Rightarrow> ResponseWriter \<times> 'db" where
  "API_Create api l e w r db =
     (case json_Decode l (Body r) of
        Inl err \<Rightarrow> (ServerError w (RespJSONDecodeFailure e), db)
      | Inr form \<Rightarrow>
          if validator api form \<noteq> [] then
            (case json_Marshal l (ToErrResponse (validator api form)) of
               Inl err \<Rightarrow> (ServerError w (RespJSONEncodeFailure e), db)
             | Inr respBody \<Rightarrow> (ValidationErrors w respBody, db))
          else
            (let newBook = (Form_ToModel form)\<lparr>Book.ID := uuid_New l\<rparr>
             in case repo_Create (repository api) newBook db of ((rows, err), db1) \<Rightarrow>
                  if err \<noteq> None then (ServerError w (RespDBDataInsertFailure e), db1)
                  else (WriteHeader w 201, db1)))"

definition API_Read ::
  "'db API \<Rightarrow> lib \<Rightarrow> err_pkg \<Rightarrow> ResponseWriter \<Rightarrow> Request \<Rightarrow> 'db \<Rightarrow> ResponseWriter \<times> 'db" where
  "API_Read api l e w r db =
     (case uuid_Parse l (chi_URLParam r ''id'') of
        Inl err \<Rightarrow> (BadRequest w (RespInvalidURLParamID e), db)
      | Inr uid \<Rightarrow>
          (case repo_Read (repository api) uid db of ((book, err), db1) \<Rightarrow>
             if err \<noteq> None then
               (if err = Some ErrRecordNotFound then (WriteHeader w 404, db1)
                else (ServerError w (RespDBDataAccessFailure e), db1))
             else
               (case Encoder_Encode l w (DTO_json (Book_ToDto l book)) of
                  (w1, Some err1) \<Rightarrow> (ServerError w1 (RespJSONEncodeFailure e), db1)
                | (w1, None) \<Rightarrow> (w1, db1))))"

definition API_Update ::
  "'db API \<Rightarrow> lib \<Rightarrow> err_pkg \<Rightarrow> ResponseWriter \<Rightarrow> Request \<Rightarrow> 'db \<Rightarrow> ResponseWriter \<times> 'db" where
  "API_Update api l e w r db =
     (case uuid_Parse l (chi_URLParam r ''id'') of
        Inl err \<Rightarrow> (BadRequest w (RespInvalidURLParamID e), db)
      | Inr uid \<Rightarrow>
          (case json_Decode l (Body r) of
             Inl err \<Rightarrow> (ServerError w (RespJSONDecodeFailure e), db)
           | Inr form \<Rightarrow>
               if validator api form \<noteq> [] then
                 (case json_Marshal l (ToErrResponse (validator api form)) of
                    Inl err \<Rightarrow> (ServerError w (RespJSONEncodeFailure e), db)
                  | Inr respBody \<Rightarrow> (ValidationErrors w respBody, db))
               else
                 (let book = (Form_ToModel form)\<lparr>Book.ID := uid\<rparr>
                  in case repo_Update (repository api) book db of ((rows, err), db1) \<Rightarrow>
                       if err \<noteq> None then (ServerError w (RespDBDataUpdateFailure e), db1)
                       else if rows = 0 then (WriteHeader w 404, db1)
                       else (w, db1))))"

definition API_Delete ::
  "'db API \<Rightarrow> lib \<Rightarrow> err_pkg \<Rightarrow> ResponseWriter \<Rightarrow> Request \<Rightarrow> 'db \<Rightarrow> ResponseWriter \<times> 'db" where
  "API_Delete api l e w r db =
     (case uuid_Parse l (chi_URLParam r ''id'') of
        Inl err \<Rightarrow> (BadRequest w (RespInvalidURLParamID e), db)
      | Inr uid \<Rightarrow>
          (case repo_Delete (repository api) uid db of ((rows, err), db1) \<Rightarrow>
             if err \<noteq> None then (BadRequest w (RespDBDataRemoveFailure e), db1)
             else if rows = 0 then (WriteHeader w 404, db1)
             else (w, db1)))"

section \<open>A calendar date in the words of the spec\<close>

text \<open>
  "A valid calendar date in \<open>YYYY-MM-DD\<close>", written from the spec and not from the
  parser: ten characters, digits around two dashes, a month from 1 to 12 and a day from
  1 to the length of that month in that year.
\<close>

definition days_in_month :: "nat \<Rightarrow> nat \<Rightarrow> nat" where
  "days_in_month y m =
     (if m = 2 then (if y mod 4 = 0 \<and> (y mod 100 \<noteq> 0 \<or> y mod 400 = 0) then 29 else 28)
      else if m = 4 \<or> m = 6 \<or> m = 9 \<or> m = 11 then 30
      else 31)"

definition decimal :: "string \<Rightarrow> nat" where
  "decimal ds = foldl (\<lambda>n c. 10 * n + digit_of c) 0 ds"

definition valid_calendar_date :: "string \<Rightarrow> bool" where
  "valid_calendar_date s =
     (length s = 10 \<and> s ! 4 = CHR ''-'' \<and> s ! 7 = CHR ''-''
      \<and> list_all is_digit_char (take 4 s)
      \<and> list_all is_digit_char (take 2 (drop 5 s))
      \<and> list_all is_digit_char (drop 8 s)
      \<and> 1 \<le> decimal (take 2 (drop 5 s)) \<and> decimal (take 2 (drop 5 s)) \<le> 12
      \<and> 1 \<le> decimal (drop 8 s)
      \<and> decimal (drop 8 s) \<le> days_in_month (decimal (take 4 s)) (decimal (take 2 (drop 5 s))))"

section \<open>Observing the calls a handler makes on the repository\<close>

datatype repo_call =
  Call_List | Call_Create Book | Call_Read UUID | Call_Update Book | Call_Delete UUID

text \<open>Any repository, with a log of the calls it receives kept beside its store.\<close>

definition logging_Repository :: "'db Repository \<Rightarrow> ('db \<times> repo_call list) Repository" where
  "logging_Repository repo =
     \<lparr>repo_List = (\<lambda>(db, log). case repo_List repo db of
                      (res, db1) \<Rightarrow> (res, (db1, log @ [Call_List]))),
      repo_Create = (\<lambda>b (db, log). case repo_Create repo b db of
                      (res, db1) \<Rightarrow> (res, (db1, log @ [Call_Create b]))),
      repo_Read = (\<lambda>u (db, log). case repo_Read repo u db of
                      (res, db1) \<Rightarrow> (res, (db1, log @ [Call_Read u]))),
      repo_Update = (\<lambda>b (db, log). case repo_Update repo b db of
                      (res, db1) \<Rightarrow> (res, (db1, log @ [Call_Update b]))),
      repo_Delete = (\<lambda>u (db, log). case repo_Delete repo u db of
                      (res, db1) \<Rightarrow> (res, (db1, log @ [Call_Delete u])))\<rparr>"

section \<open>Example values\<close>

text \<open>
  The text \<open>json.Marshal\<close> writes for a value whose strings hold no character that it
  escapes: no white space, the members of an object in their order.
\<close>

fun join_comma :: "string list \<Rightarrow> string" where
  "join_comma [] = []"
| "join_comma [s] = s"
| "join_comma (s # t # ss) = s @ '','' @ join_comma (t # ss)"

definition quoted :: "string \<Rightarrow> string" where
  "quoted s = [CHR 0x22] @ s @ [CHR 0x22]"

fun json_plain :: "json \<Rightarrow> string" where
  "json_plain JNull = ''null''"
| "json_plain (JString s) = quoted s"
| "json_plain (JArray vs) = ''['' @ join_comma (map json_plain vs) @ '']''"
| "json_plain (JObject kvs) =
     ''{'' @ join_comma (map (\<lambda>kv. quoted (fst kv) @ '':'' @ json_plain (snd kv)) kvs) @ ''}''"

definition sample_lib :: lib where
  "sample_lib =
     \<lparr>json_Decode = (\<lambda>b. Inl (ErrorString ''unexpected end of JSON input'')),
      json_Marshal = (\<lambda>v. Inr ''{}''),
      uuid_Parse = (\<lambda>s. if length s = 36 then Inr 1
                          else Inl (ErrorString ''invalid UUID length'')),
      uuid_String = (\<lambda>u. ''00000000-0000-0000-0000-000000000001''),
      uuid_New = 2,
      url_Parse_ok = (\<lambda>s. take 7 s = ''http://''),
      RuneCountInString = length\<rparr>"

definition sample_form :: Form where
  "sample_form =
     \<lparr>Form.Title = ''Dune'', Form.Author = ''Frank Herbert'',
      Form.PublishedDate = ''1965-08-01'',
      Form.ImageURL = ''http://example.com/dune.png'',
      Form.Description = ''''\<rparr>"

definition sample_err_pkg :: err_pkg where
  "sample_err_pkg =
     \<lparr>RespDBDataInsertFailure = ''db data insert failure'',
      RespDBDataAccessFailure = ''db data access failure'',
      RespDBDataUpdateFailure = ''db data update failure'',
      RespDBDataRemoveFailure = ''db data remove failure'',
      RespJSONEncodeFailure = ''json encode failure'',
      RespJSONDecodeFailure = ''json decode failure'',
      RespInvalidURLParamID = ''invalid url param-id''\<rparr>"

definition sample_request :: Request where
  "sample_request =
     \<lparr>Body = ''{'', URLParams = [(''id'', ''00000000-0000-0000-0000-000000000001'')]\<rparr>"

text \<open>A repository that answers every call with the given records, row count and error.\<close>

definition sample_repo :: "Books \<Rightarrow> int \<Rightarrow> go_error option \<Rightarrow> unit Repository" where
  "sample_repo books rows err =
     \<lparr>repo_List = (\<lambda>db. ((books, err), db)),
      repo_Create = (\<lambda>b db. ((rows, err), db)),
      repo_Read = (\<lambda>u db. (((Form_ToModel sample_form)\<lparr>Book.ID := u\<rparr>, err), db)),
      repo_Update = (\<lambda>b db. ((rows, err), db)),
      repo_Delete = (\<lambda>u db. ((rows, err), db))\<rparr>"

section \<open>Printing a parsed date gives the text back\<close>

lemma digit_char_digit_of: "is_digit_char c \<Longrightarrow> digit_char (digit_of c) = c"
  unfolding is_digit_char_def digit_char_def digit_of_def by simp

lemma digit_of_lt: "is_digit_char c \<Longrightarrow> digit_of c < 10"
  unfolding is_digit_char_def digit_of_def by arith

lemma getnum_fixed_Inr:
  assumes "getnum s True = Inr (n, r)"
  shows "\<exists>a b. s = a # b # r \<and> is_digit_char a \<and> is_digit_char b \<and> n = digit_of a * 10 + digit_of b"
proof -
  from assms have d0: "isDigit s 0" and d1: "isDigit s 1"
    by (auto simp: getnum_def split: if_splits)
  from d1 obtain a b t where s: "s = a # b # t"
    by (cases s; cases "tl s") (auto simp: isDigit_def)
  with assms d0 d1 show ?thesis
    by (auto simp: getnum_def isDigit_def)
qed

lemma skip_dash_Inr: "skip v ''-'' = Inr r \<Longrightarrow> v = CHR ''-'' # r"
  by (cases v) (auto split: if_splits)

lemma atoi_four_Inr:
  assumes "length p = 4" and "is_digit_char (hd p)" and "atoi p = Inr y"
  shows "\<exists>a b c e. p = [a, b, c, e] \<and> is_digit_char a \<and> is_digit_char b \<and> is_digit_char c
           \<and> is_digit_char e
           \<and> y = int (((digit_of a * 10 + digit_of b) * 10 + digit_of c) * 10 + digit_of e)"
proof -
  from assms(1) obtain a b c e where p: "p = [a, b, c, e]"
    by (cases p; cases "tl p"; cases "tl (tl p)"; cases "tl (tl (tl p))") auto
  from assms(2) p have a: "is_digit_char a" by simp
  then have nosign: "a \<noteq> CHR ''-''" "a \<noteq> CHR ''+''"
    by (auto simp: is_digit_char_def)
  from assms(3) p a nosign show ?thesis
    by (auto simp: atoi_def Let_def split: if_splits prod.splits)
qed

lemma parse_Inr:
  assumes "parse_2006_01_02 s = Inr (y, m, d)"
  shows "\<exists>a b c e f g h i. s = [a, b, c, e, CHR ''-'', f, g, CHR ''-'', h, i]
           \<and> is_digit_char a \<and> is_digit_char b \<and> is_digit_char c \<and> is_digit_char e
           \<and> is_digit_char f \<and> is_digit_char g \<and> is_digit_char h \<and> is_digit_char i
           \<and> y = int (((digit_of a * 10 + digit_of b) * 10 + digit_of c) * 10 + digit_of e)
           \<and> m = digit_of f * 10 + digit_of g \<and> d = digit_of h * 10 + digit_of i"
proof -
  from assms have len: "\<not> length s < 4" and d0: "isDigit s 0"
    by (auto simp: parse_2006_01_02_def split: if_splits)
  from assms len d0 obtain v1 where y: "atoi (take 4 s) = Inr y" and s1: "skip (drop 4 s) ''-'' = Inr v1"
    by (auto simp: parse_2006_01_02_def split: if_splits sum.splits)
  from assms len d0 y s1 obtain v2 where g1: "getnum v1 True = Inr (m, v2)"
    by (auto simp: parse_2006_01_02_def split: if_splits sum.splits)
  from assms len d0 y s1 g1 obtain v3 where s2: "skip v2 ''-'' = Inr v3"
    by (auto simp: parse_2006_01_02_def split: if_splits sum.splits)
  from assms len d0 y s1 g1 s2 have g2: "getnum v3 True = Inr (d, [])"
    by (auto simp: parse_2006_01_02_def split: if_splits sum.splits)
  from len have l4: "length (take 4 s) = 4" by simp
  from d0 len have hd: "is_digit_char (hd (take 4 s))"
    by (cases s) (auto simp: isDigit_def)
  from atoi_four_Inr[OF l4 hd y] obtain a b c e where
    t: "take 4 s = [a, b, c, e]" and dg: "is_digit_char a" "is_digit_char b" "is_digit_char c" "is_digit_char e"
    and yv: "y = int (((digit_of a * 10 + digit_of b) * 10 + digit_of c) * 10 + digit_of e)"
    by blast
  from getnum_fixed_Inr[OF g2] obtain h i where v3: "v3 = [h, i]" and dh: "is_digit_char h" "is_digit_char i"
    and dv: "d = digit_of h * 10 + digit_of i" by blast
  from getnum_fixed_Inr[OF g1] obtain f g where v1: "v1 = f # g # v2" and df: "is_digit_char f" "is_digit_char g"
    and mv: "m = digit_of f * 10 + digit_of g" by blast
  have "s = take 4 s @ drop 4 s" by simp
  also have "\<dots> = [a, b, c, e] @ CHR ''-'' # f # g # CHR ''-'' # [h, i]"
    using t skip_dash_Inr[OF s1] skip_dash_Inr[OF s2] v1 v3 by simp
  finally show ?thesis using dg df dh yv mv dv by simp
qed

lemma digit_char_0: "digit_char 0 = CHR ''0''"
  by code_simp

lemma dec_digits_small: "n < 10 \<Longrightarrow> dec_digits n = [digit_char n]"
  by (simp add: dec_digits.simps)

lemma zero_pad_one: "n < 10 \<Longrightarrow> zero_pad (Suc 0) n = [digit_char n]"
  by (simp add: zero_pad_def dec_digits_small)

lemma zero_pad_step:
  assumes "r < 10"
  shows "zero_pad (Suc (Suc j)) (q * 10 + r) = zero_pad (Suc j) q @ [digit_char r]"
proof (cases "q = 0")
  case True
  have "replicate (Suc j) (CHR ''0'') = replicate j (CHR ''0'') @ ''0''"
    by (simp add: replicate_append_same)
  with True assms show ?thesis
    by (simp add: zero_pad_def dec_digits_small digit_char_0)
next
  case False
  then have "\<not> q * 10 + r < 10" by simp
  then have "dec_digits (q * 10 + r)
      = dec_digits ((q * 10 + r) div 10) @ [digit_char ((q * 10 + r) mod 10)]"
    by (subst dec_digits.simps) simp
  with assms show ?thesis by (simp add: zero_pad_def)
qed

lemma zero_pad_two:
  assumes "a < 10" "b < 10"
  shows "zero_pad 2 (a * 10 + b) = [digit_char a, digit_char b]"
  using zero_pad_step [OF assms(2), of 0 a] zero_pad_one [OF assms(1)]
  by (simp add: numeral_2_eq_2)

lemma zero_pad_four:
  assumes "a < 10" "b < 10" "c < 10" "e < 10"
  shows "zero_pad 4 (((a * 10 + b) * 10 + c) * 10 + e)
         = [digit_char a, digit_char b, digit_char c, digit_char e]"
proof -
  have four: "(4::nat) = Suc (Suc (Suc (Suc 0)))" by simp
  show ?thesis
    unfolding four
    by (simp only: zero_pad_step assms zero_pad_one append.simps)
qed

lemma appendInt_nat:
  "appendInt bs (int n) w = bs @ zero_pad w n"
  by (simp add: appendInt_def Let_def zero_pad_def)

lemma Format_Parse:
  assumes "parse_2006_01_02 s = Inr (y, m, d)"
  shows "Time_Format (Date y m d 0 0 0 0) = s"
proof -
  from parse_Inr [OF assms] obtain a b c e f g h i where
    s: "s = [a, b, c, e, CHR ''-'', f, g, CHR ''-'', h, i]"
    and dg: "is_digit_char a" "is_digit_char b" "is_digit_char c" "is_digit_char e"
      "is_digit_char f" "is_digit_char g" "is_digit_char h" "is_digit_char i"
    and y: "y = int (((digit_of a * 10 + digit_of b) * 10 + digit_of c) * 10 + digit_of e)"
    and m: "m = digit_of f * 10 + digit_of g" and d: "d = digit_of h * 10 + digit_of i"
    by blast
  have Y: "appendInt [] y 4 = [a, b, c, e]"
    unfolding y appendInt_nat
    using zero_pad_four [of "digit_of a" "digit_of b" "digit_of c" "digit_of e"] dg
    by (simp only: digit_of_lt digit_char_digit_of append_Nil)
  have M: "appendInt bs (int m) 2 = bs @ [f, g]" for bs
    unfolding m appendInt_nat
    using zero_pad_two [of "digit_of f" "digit_of g"] dg
    by (simp only: digit_of_lt digit_char_digit_of)
  have D: "appendInt bs (int d) 2 = bs @ [h, i]" for bs
    unfolding d appendInt_nat
    using zero_pad_two [of "digit_of h" "digit_of i"] dg
    by (simp only: digit_of_lt digit_char_digit_of)
  show ?thesis
    by (simp add: Time_Format_def Date_def Y M D s)
qed

lemma month_cases:
  assumes "1 \<le> (m::nat)" "m \<le> 12"
  shows "m \<in> set [1, 2, 3, 4, 5, 6, 7, 8, 9, 10, 11, 12]"
proof -
  from assms have "m \<in> set [1..<13]" by simp
  also have "[1..<13] = [1, 2, 3, 4, 5, 6, 7, 8, 9, 10, 11, 12::nat]" by code_simp
  finally show ?thesis .
qed

lemma isLeap_int:
  "isLeap (int y) = (y mod 4 = 0 \<and> (y mod 100 \<noteq> 0 \<or> y mod 400 = 0))"
proof -
  have "int y mod 4 = int (y mod 4)" "int y mod 100 = int (y mod 100)"
    "int y mod 400 = int (y mod 400)"
    by (simp_all add: zmod_int)
  then show ?thesis by (simp add: isLeap_def)
qed

lemma daysIn_eq:
  assumes "1 \<le> m" "m \<le> 12"
  shows "daysIn m (int y) = days_in_month y m"
  using month_cases [OF assms]
  by (auto simp: daysIn_def days_in_month_def isLeap_int)

lemma valid_calendar_date_of_parse:
  assumes "parse_2006_01_02 s = Inr (y, m, d)"
  shows "valid_calendar_date s"
proof -
  from parse_Inr [OF assms] obtain a b c e f g h i where
    s: "s = [a, b, c, e, CHR ''-'', f, g, CHR ''-'', h, i]"
    and dg: "is_digit_char a" "is_digit_char b" "is_digit_char c" "is_digit_char e"
      "is_digit_char f" "is_digit_char g" "is_digit_char h" "is_digit_char i"
    and y: "y = int (((digit_of a * 10 + digit_of b) * 10 + digit_of c) * 10 + digit_of e)"
    and m: "m = digit_of f * 10 + digit_of g" and d: "d = digit_of h * 10 + digit_of i"
    by blast
  from assms have rng: "1 \<le> m" "m \<le> 12" "1 \<le> d" "d \<le> daysIn m y"
    by (auto simp: parse_2006_01_02_def split: if_splits sum.splits)
  have Y: "decimal (take 4 s) = ((digit_of a * 10 + digit_of b) * 10 + digit_of c) * 10 + digit_of e"
    by (simp add: s decimal_def)
  have M: "decimal (take 2 (drop 5 s)) = m" by (simp add: s decimal_def m)
  have D: "decimal (drop 8 s) = d" by (simp add: s decimal_def d)
  from rng(4) have "d \<le> days_in_month (decimal (take 4 s)) m"
    unfolding y Y daysIn_eq [OF rng(1,2)] .
  with rng dg show ?thesis
    unfolding valid_calendar_date_def M D by (simp add: s)
qed

lemma ten_chars:
  assumes "length s = 10"
  shows "\<exists>a b c e p f g q h i. s = [a, b, c, e, p, f, g, q, h, i]"
proof -
  from assms obtain a s1 where 1: "s = a # s1" "length s1 = 9" by (cases s) auto
  then obtain b s2 where 2: "s1 = b # s2" "length s2 = 8" by (cases s1) auto
  then obtain c s3 where 3: "s2 = c # s3" "length s3 = 7" by (cases s2) auto
  then obtain e s4 where 4: "s3 = e # s4" "length s4 = 6" by (cases s3) auto
  then obtain p s5 where 5: "s4 = p # s5" "length s5 = 5" by (cases s4) auto
  then obtain f s6 where 6: "s5 = f # s6" "length s6 = 4" by (cases s5) auto
  then obtain g s7 where 7: "s6 = g # s7" "length s7 = 3" by (cases s6) auto
  then obtain q s8 where 8: "s7 = q # s8" "length s8 = 2" by (cases s7) auto
  then obtain h s9 where 9: "s8 = h # s9" "length s9 = 1" by (cases s8) auto
  then obtain i where 10: "s9 = [i]" by (cases s9) auto
  show ?thesis using 1 2 3 4 5 6 7 8 9 10 by simp
qed

lemma digit_not_sign: "is_digit_char a \<Longrightarrow> a \<noteq> CHR ''-'' \<and> a \<noteq> CHR ''+''"
  by (auto simp: is_digit_char_def)

lemma atoi_four_digits:
  assumes "is_digit_char a" "is_digit_char b" "is_digit_char c" "is_digit_char e"
  shows "atoi [a, b, c, e]
         = Inr (int (((digit_of a * 10 + digit_of b) * 10 + digit_of c) * 10 + digit_of e))"
  using assms digit_not_sign [OF assms(1)] by (simp add: atoi_def)

lemma getnum_two_digits:
  assumes "is_digit_char f" "is_digit_char g"
  shows "getnum (f # g # rest) True = Inr (digit_of f * 10 + digit_of g, rest)"
  using assms by (simp add: getnum_def isDigit_def)

lemma parse_ten_chars:
  assumes "is_digit_char a" "is_digit_char b" "is_digit_char c" "is_digit_char e"
    and "is_digit_char f" "is_digit_char g" "is_digit_char h" "is_digit_char i"
    and "y = ((digit_of a * 10 + digit_of b) * 10 + digit_of c) * 10 + digit_of e"
    and "m = digit_of f * 10 + digit_of g" and "d = digit_of h * 10 + digit_of i"
    and "1 \<le> m" "m \<le> 12" "1 \<le> d" "d \<le> daysIn m (int y)"
  shows "parse_2006_01_02 [a, b, c, e, CHR ''-'', f, g, CHR ''-'', h, i] = Inr (int y, m, d)"
proof -
  have 1: "atoi (take 4 [a, b, c, e, CHR ''-'', f, g, CHR ''-'', h, i]) = Inr (int y)"
    using atoi_four_digits [OF assms(1-4)] assms(9) by simp
  have 2: "skip (drop 4 [a, b, c, e, CHR ''-'', f, g, CHR ''-'', h, i]) ''-''
           = Inr [f, g, CHR ''-'', h, i]" by simp
  have 3: "getnum [f, g, CHR ''-'', h, i] True = Inr (m, [CHR ''-'', h, i])"
    using getnum_two_digits [OF assms(5,6)] assms(10) by simp
  have 4: "skip [CHR ''-'', h, i] ''-'' = Inr [h, i]" by simp
  have 5: "getnum [h, i] True = Inr (d, [])"
    using getnum_two_digits [OF assms(7,8)] assms(11) by simp
  have 0: "\<not> (length [a, b, c, e, CHR ''-'', f, g, CHR ''-'', h, i] < 4
            \<or> \<not> isDigit [a, b, c, e, CHR ''-'', f, g, CHR ''-'', h, i] 0)"
    using assms(1) by (simp add: isDigit_def)
  show ?thesis
    unfolding parse_2006_01_02_def
    using assms(12-15) by (simp only: 0 1 2 3 4 5 if_False sum.case prod.case) simp
qed

lemma parse_of_valid_calendar_date:
  assumes "valid_calendar_date s"
  shows "\<exists>y m d. parse_2006_01_02 s = Inr (y, m, d)"
proof -
  from assms have "length s = 10" by (simp add: valid_calendar_date_def)
  from ten_chars [OF this] obtain a b c e p f g q h i where
    s: "s = [a, b, c, e, p, f, g, q, h, i]" by blast
  have v: "length s = 10" "s ! 4 = CHR ''-''" "s ! 7 = CHR ''-''"
      "list_all is_digit_char (take 4 s)"
      "list_all is_digit_char (take 2 (drop 5 s))"
      "list_all is_digit_char (drop 8 s)"
      "1 \<le> decimal (take 2 (drop 5 s))" "decimal (take 2 (drop 5 s)) \<le> 12"
      "1 \<le> decimal (drop 8 s)"
      "decimal (drop 8 s) \<le> days_in_month (decimal (take 4 s)) (decimal (take 2 (drop 5 s)))"
    using assms unfolding valid_calendar_date_def by blast+
  from v(2,3) s have pq: "p = CHR ''-''" "q = CHR ''-''" by simp_all
  from v(4,5,6) s have dg: "is_digit_char a" "is_digit_char b" "is_digit_char c" "is_digit_char e"
      "is_digit_char f" "is_digit_char g" "is_digit_char h" "is_digit_char i"
    by simp_all
  define m where "m = digit_of f * 10 + digit_of g"
  define d where "d = digit_of h * 10 + digit_of i"
  define y where "y = ((digit_of a * 10 + digit_of b) * 10 + digit_of c) * 10 + digit_of e"
  have Y: "decimal (take 4 s) = y" by (simp add: s decimal_def y_def)
  have M: "decimal (take 2 (drop 5 s)) = m" by (simp add: s decimal_def m_def)
  have D: "decimal (drop 8 s) = d" by (simp add: s decimal_def d_def)
  from v(7-10) have rng: "1 \<le> m" "m \<le> 12" "1 \<le> d" "d \<le> days_in_month y m"
    unfolding Y M D by simp_all
  from rng(4) have dd: "d \<le> daysIn m (int y)"
    unfolding daysIn_eq [OF rng(1,2)] .
  have "parse_2006_01_02 s = Inr (int y, m, d)"
    unfolding s pq
    by (rule parse_ten_chars [OF dg y_def m_def d_def rng(1-3) dd])
  then show ?thesis by blast
qed

lemma time_Parse_ok_iff: "snd (time_Parse s) = None \<longleftrightarrow> valid_calendar_date s"
proof
  assume "snd (time_Parse s) = None"
  then obtain y m d where "parse_2006_01_02 s = Inr (y, m, d)"
    by (auto simp: time_Parse_def split: sum.splits)
  then show "valid_calendar_date s" by (rule valid_calendar_date_of_parse)
next
  assume "valid_calendar_date s"
  from parse_of_valid_calendar_date [OF this] show "snd (time_Parse s) = None"
    by (auto simp: time_Parse_def)
qed

lemma Format_time_Parse:
  assumes "snd (time_Parse s) = None"
  shows "Time_Format (fst (time_Parse s)) = s"
proof -
  from assms obtain y m d where p: "parse_2006_01_02 s = Inr (y, m, d)"
    by (auto simp: time_Parse_def split: sum.splits)
  from Format_Parse [OF p] p show ?thesis by (simp add: time_Parse_def)
qed

section \<open>The mapper\<close>

lemma Form_ToModel_PublishedDate:
  "Book.PublishedDate (Form_ToModel f) = fst (time_Parse (Form.PublishedDate f))"
  by (simp add: Form_ToModel_def split_beta)

lemma valid_form_date_parses:
  assumes "validator_Struct l f = []"
  shows "snd (time_Parse (Form.PublishedDate f)) = None"
  using assms
  by (simp add: validator_Struct_def Form_validate_tags_def field_errors_def
      split: option.splits if_splits)

lemma date_roundtrip_any_form:
  assumes "valid_calendar_date (Form.PublishedDate f)"
  shows "DTO.PublishedDate (Book_ToDto l (Form_ToModel f)) = Form.PublishedDate f"
proof -
  have "Time_Format (fst (time_Parse (Form.PublishedDate f))) = Form.PublishedDate f"
    using assms by (simp add: time_Parse_ok_iff Format_time_Parse)
  then show ?thesis
    by (simp add: Book_ToDto_def Form_ToModel_PublishedDate)
qed

text \<open>
  C4. \<open>Form.ToModel\<close> returns a model for every Form and never an error. Title, author,
  image URL and description are copied as they are; the identifier, both timestamps and
  the deletion marker keep their zero values; and when the published-date text does not
  parse with the layout \<open>2006-01-02\<close> the model's date is the zero time.
\<close>

theorem Form_ToModel_total:
  "Book.Title (Form_ToModel f) = Form.Title f
   \<and> Book.Author (Form_ToModel f) = Form.Author f
   \<and> Book.ImageURL (Form_ToModel f) = Form.ImageURL f
   \<and> Book.Description (Form_ToModel f) = Form.Description f
   \<and> Book.ID (Form_ToModel f) = uuid_Nil
   \<and> Book.CreatedAt (Form_ToModel f) = zero_Time
   \<and> Book.UpdatedAt (Form_ToModel f) = zero_Time
   \<and> Book.DeletedAt (Form_ToModel f) = zero_DeletedAt
   \<and> (snd (time_Parse (Form.PublishedDate f)) \<noteq> None
        \<longrightarrow> Book.PublishedDate (Form_ToModel f) = zero_Time)"
  by (simp add: Form_ToModel_def time_Parse_def split: sum.splits prod.splits)

theorem Form_ToModel_total_witness:
  "snd (time_Parse ''2023-02-30'') \<noteq> None
   \<and> Book.PublishedDate (Form_ToModel (sample_form\<lparr>Form.PublishedDate := ''2023-02-30''\<rparr>))
       = zero_Time
   \<and> Book.Title (Form_ToModel (sample_form\<lparr>Form.PublishedDate := ''2023-02-30''\<rparr>)) = ''Dune''"
proof -
  have h: "snd (time_Parse ''2023-02-30'') \<noteq> None" by code_simp
  show ?thesis
    using h Form_ToModel_total [of "sample_form\<lparr>Form.PublishedDate := ''2023-02-30''\<rparr>"]
    by (simp add: sample_form_def)
qed

text \<open>
  C3. For every Form that passes validation, \<open>ToDto\<close> after \<open>ToModel\<close> gives back the
  Form's title, author, image URL and description, and the Form's published-date text.
  The date of a Form that passes validation is always a valid calendar date written
  \<open>YYYY-MM-DD\<close>, so the date text comes back unchanged for every such Form.
\<close>

theorem ToDto_ToModel_roundtrip:
  assumes "validator_Struct l f = []"
  shows "DTO.Title (Book_ToDto l (Form_ToModel f)) = Form.Title f
   \<and> DTO.Author (Book_ToDto l (Form_ToModel f)) = Form.Author f
   \<and> DTO.ImageURL (Book_ToDto l (Form_ToModel f)) = Form.ImageURL f
   \<and> DTO.Description (Book_ToDto l (Form_ToModel f)) = Form.Description f
   \<and> valid_calendar_date (Form.PublishedDate f)
   \<and> DTO.PublishedDate (Book_ToDto l (Form_ToModel f)) = Form.PublishedDate f"
proof -
  have p: "snd (time_Parse (Form.PublishedDate f)) = None"
    using assms by (rule valid_form_date_parses)
  have "Time_Format (fst (time_Parse (Form.PublishedDate f))) = Form.PublishedDate f"
    using p by (rule Format_time_Parse)
  then have "DTO.PublishedDate (Book_ToDto l (Form_ToModel f)) = Form.PublishedDate f"
    by (simp add: Book_ToDto_def Form_ToModel_PublishedDate)
  moreover have "valid_calendar_date (Form.PublishedDate f)"
    using p by (simp add: time_Parse_ok_iff)
  ultimately show ?thesis
    by (simp add: Book_ToDto_def Form_ToModel_def split_beta)
qed

theorem ToDto_ToModel_roundtrip_witness:
  "validator_Struct sample_lib sample_form = []
   \<and> DTO.Title (Book_ToDto sample_lib (Form_ToModel sample_form)) = ''Dune''
   \<and> DTO.PublishedDate (Book_ToDto sample_lib (Form_ToModel sample_form)) = ''1965-08-01''"
proof -
  have h: "validator_Struct sample_lib sample_form = []" by code_simp
  show ?thesis
    using h ToDto_ToModel_roundtrip [OF h] by (simp add: sample_form_def)
qed

section \<open>Validation of the image URL\<close>

text \<open>
  C2, as the code has it. The \<open>url\<close> rule of the image URL carries no \<open>omitempty\<close>, so
  it is checked on an empty value too and refuses it: validation reports a violation on
  the image URL field exactly when the value is empty or is not a well-formed URL, and
  the violation names the rule \<open>url\<close>.
\<close>

theorem ImageURL_violation:
  "filter (\<lambda>e. Field e = ''ImageURL'') (validator_Struct l f)
   = (if Form.ImageURL f \<noteq> [] \<and> url_Parse_ok l (Form.ImageURL f) then []
      else [\<lparr>Field = ''ImageURL'', Tag = Url\<rparr>])"
  by (simp add: validator_Struct_def Form_validate_tags_def field_errors_def isURL_def
      split: option.splits)

theorem ImageURL_violation_witness:
  "filter (\<lambda>e. Field e = ''ImageURL'')
     (validator_Struct sample_lib (sample_form\<lparr>Form.ImageURL := ''''\<rparr>))
   = [\<lparr>Field = ''ImageURL'', Tag = Url\<rparr>]"
  using ImageURL_violation [of sample_lib "sample_form\<lparr>Form.ImageURL := ''''\<rparr>"]
  by simp

text \<open>
  A Form that is valid but for its empty image URL does not pass validation: the one
  violation reported is on the image URL.
\<close>

theorem empty_ImageURL_fails_validation:
  "Form.ImageURL (sample_form\<lparr>Form.ImageURL := ''''\<rparr>) = []
   \<and> validator_Struct sample_lib (sample_form\<lparr>Form.ImageURL := ''''\<rparr>)
       = [\<lparr>Field = ''ImageURL'', Tag = Url\<rparr>]"
  by code_simp

section \<open>The response writer\<close>

lemma ServerError_new [simp]:
  "ServerError new_ResponseWriter b = \<lparr>wroteHeader = Some 500, body = b\<rparr>"
  by (simp add: ServerError_def Write_def WriteHeader_def new_ResponseWriter_def)

lemma BadRequest_new [simp]:
  "BadRequest new_ResponseWriter b = \<lparr>wroteHeader = Some 400, body = b\<rparr>"
  by (simp add: BadRequest_def Write_def WriteHeader_def new_ResponseWriter_def)

lemma ValidationErrors_new [simp]:
  "ValidationErrors new_ResponseWriter b = \<lparr>wroteHeader = Some 422, body = b\<rparr>"
  by (simp add: ValidationErrors_def Write_def WriteHeader_def new_ResponseWriter_def)

lemma WriteHeader_new [simp]:
  "WriteHeader new_ResponseWriter c = \<lparr>wroteHeader = Some c, body = []\<rparr>"
  by (simp add: WriteHeader_def new_ResponseWriter_def)

lemma Write_new [simp]:
  "Write new_ResponseWriter b = \<lparr>wroteHeader = Some 200, body = b\<rparr>"
  by (simp add: Write_def new_ResponseWriter_def)

lemma status_simps [simp]:
  "status \<lparr>wroteHeader = Some c, body = b\<rparr> = c"
  "status new_ResponseWriter = 200"
  by (simp_all add: status_def new_ResponseWriter_def)

lemma body_new [simp]: "body new_ResponseWriter = []"
  by (simp add: new_ResponseWriter_def)

section \<open>The list of DTOs\<close>




section \<open>The handlers\<close>

text \<open>
  C1, as the code has it. When the JSON body does not decode into a Form, \<open>Create\<close> and
  \<open>Update\<close> (the latter once the path identifier has parsed) answer through
  \<open>ServerError\<close>: the status is 500, not 400, and the body is the fixed bytes
  \<open>RespJSONDecodeFailure\<close>, whatever the decoder's error was.
\<close>

theorem decode_failure_gets_ServerError:
  assumes "json_Decode l (Body r) = Inl err"
    and "uuid_Parse l (chi_URLParam r ''id'') = Inr uid"
  shows "API_Create api l e new_ResponseWriter r db
           = (\<lparr>wroteHeader = Some 500, body = RespJSONDecodeFailure e\<rparr>, db)
       \<and> API_Update api l e new_ResponseWriter r db
           = (\<lparr>wroteHeader = Some 500, body = RespJSONDecodeFailure e\<rparr>, db)"
  using assms by (simp add: API_Create_def API_Update_def)

theorem decode_failure_gets_ServerError_witness:
  "json_Decode sample_lib (Body sample_request) = Inl (ErrorString ''unexpected end of JSON input'')
   \<and> status (fst (API_Create (New (sample_repo [] 1 None) (validator_Struct sample_lib))
        sample_lib sample_err_pkg new_ResponseWriter sample_request ())) = 500
   \<and> status (fst (API_Update (New (sample_repo [] 1 None) (validator_Struct sample_lib))
        sample_lib sample_err_pkg new_ResponseWriter sample_request ())) = 500"
proof -
  have d: "json_Decode sample_lib (Body sample_request)
           = Inl (ErrorString ''unexpected end of JSON input'')"
    by (simp add: sample_lib_def)
  have u: "uuid_Parse sample_lib (chi_URLParam sample_request ''id'') = Inr 1"
    by (simp add: sample_lib_def sample_request_def chi_URLParam_def)
  show ?thesis
    using d decode_failure_gets_ServerError [OF d u,
        where api = "New (sample_repo [] 1 None) (validator_Struct sample_lib)"
          and e = sample_err_pkg and db = "()"]
    by simp
qed



lemma first_failure_None_iff:
  "first_failure l rs s = None \<longleftrightarrow> \<not> list_ex (\<lambda>r. \<not> check_rule l r s) rs"
  by (induction rs) auto

lemma field_errors_fields:
  "map Field (concat (map (field_errors l f) tags))
   = map fst (filter (field_violated l f) tags)"
proof (induction tags)
  case Nil
  then show ?case by simp
next
  case (Cons t tags)
  obtain name get rules where t: "t = (name, get, rules)" by (cases t)
  show ?case
  proof (cases "first_failure l rules (get f)")
    case None
    with Cons t show ?thesis
      using first_failure_None_iff [of l rules "get f"]
      by (simp add: field_errors_def field_violated_def)
  next
    case (Some r)
    with Cons t show ?thesis
      using first_failure_None_iff [of l rules "get f"]
      by (simp add: field_errors_def field_violated_def)
  qed
qed

lemma validator_Struct_fields:
  "map Field (validator_Struct l f) = map fst (filter (field_violated l f) Form_validate_tags)"
  by (simp only: validator_Struct_def field_errors_fields)

lemma first_failure_Some_hd:
  "first_failure l rs s = Some r \<Longrightarrow> r = hd (filter (\<lambda>r. \<not> check_rule l r s) rs)"
  by (induction rs) (auto split: if_splits)

lemma field_errors_violated:
  "field_errors l f t
   = (if field_violated l f t then [\<lparr>Field = fst t, Tag = broken_rule l f t\<rparr>] else [])"
proof -
  obtain name get rules where t: "t = (name, get, rules)" by (cases t)
  show ?thesis
  proof (cases "first_failure l rules (get f)")
    case None
    then show ?thesis
      using first_failure_None_iff [of l rules "get f"]
      by (simp add: t field_errors_def field_violated_def)
  next
    case (Some r)
    then show ?thesis
      using first_failure_None_iff [of l rules "get f"] first_failure_Some_hd [OF Some]
      by (simp add: t field_errors_def field_violated_def broken_rule_def)
  qed
qed

lemma validator_Struct_violations:
  "validator_Struct l f
   = map (\<lambda>t. \<lparr>Field = fst t, Tag = broken_rule l f t\<rparr>)
       (filter (field_violated l f) Form_validate_tags)"
proof -
  have "concat (map (field_errors l f) tags)
        = map (\<lambda>t. \<lparr>Field = fst t, Tag = broken_rule l f t\<rparr>) (filter (field_violated l f) tags)"
    for tags
    by (induction tags) (simp_all add: field_errors_violated)
  then show ?thesis by (simp add: validator_Struct_def)
qed

lemma ToErrResponse_violations:
  "ToErrResponse (validator_Struct l f)
   = JArray (map (violation_json l f) (filter (field_violated l f) Form_validate_tags))"
  by (simp add: ToErrResponse_def validator_Struct_violations violation_json_def comp_def)

text \<open>
  C6. When the Form given to \<open>Create\<close> breaks the rules of one or more fields, the
  response has status 422, which is neither the status of \<open>ServerError\<close> nor that of
  \<open>BadRequest\<close>, and its body is the serialisation of the complete report: the value
  handed to \<open>json.Marshal\<close> holds one entry for every field with a broken rule, in the
  order of the fields, each naming the field and the rule it breaks, and not only the
  first such field.
\<close>

theorem Create_reports_every_violated_field:
  assumes "json_Decode l (Body r) = Inr form"
    and "validator api = validator_Struct l"
    and "list_ex (field_violated l form) Form_validate_tags"
    and "json_Marshal l
           (JArray (map (violation_json l form)
              (filter (field_violated l form) Form_validate_tags))) = Inr respBody"
  shows "API_Create api l e new_ResponseWriter r db
           = (\<lparr>wroteHeader = Some 422, body = respBody\<rparr>, db)
       \<and> ToErrResponse (validator api form)
           = JArray (map (violation_json l form)
               (filter (field_violated l form) Form_validate_tags))
       \<and> map Field (validator api form)
           = map fst (filter (field_violated l form) Form_validate_tags)
       \<and> status (fst (API_Create api l e new_ResponseWriter r db))
           \<noteq> status (ServerError new_ResponseWriter (RespJSONDecodeFailure e))
       \<and> status (fst (API_Create api l e new_ResponseWriter r db))
           \<noteq> status (BadRequest new_ResponseWriter (RespJSONDecodeFailure e))"
proof -
  from assms(3) have "filter (field_violated l form) Form_validate_tags \<noteq> []"
    by (simp add: list_ex_iff filter_empty_conv)
  then have ne: "validator_Struct l form \<noteq> []"
    by (simp add: validator_Struct_violations)
  have "API_Create api l e new_ResponseWriter r db
        = (\<lparr>wroteHeader = Some 422, body = respBody\<rparr>, db)"
    using assms(1,2,4) ne by (simp add: API_Create_def ToErrResponse_violations)
  then show ?thesis
    by (simp add: assms(2) ToErrResponse_violations validator_Struct_fields)
qed

theorem Create_reports_every_violated_field_witness:
  "API_Create (New (sample_repo [] 1 None) (validator_Struct sample_lib))
        (sample_lib\<lparr>json_Decode :=
             (\<lambda>b. Inr (sample_form\<lparr>Form.Title := '''', Form.Author := ''R2D2''\<rparr>)),
           json_Marshal := (\<lambda>v. Inr (json_plain v))\<rparr>)
        sample_err_pkg new_ResponseWriter sample_request ()
     = (\<lparr>wroteHeader = Some 422,
         body = ''[{\"field\":\"Title\",\"rule\":\"required\"},{\"field\":\"Author\",\"rule\":\"alphaspace\"}]''\<rparr>,
        ())
   \<and> API_Create (New (sample_repo [] 1 None) (validator_Struct sample_lib))
        (sample_lib\<lparr>json_Decode := (\<lambda>b. Inr (sample_form\<lparr>Form.Title := ''''\<rparr>)),
           json_Marshal := (\<lambda>v. Inr (json_plain v))\<rparr>)
        sample_err_pkg new_ResponseWriter sample_request ()
     = (\<lparr>wroteHeader = Some 422, body = ''[{\"field\":\"Title\",\"rule\":\"required\"}]''\<rparr>, ())
   \<and> map Field (validator_Struct sample_lib
       (sample_form\<lparr>Form.Title := '''', Form.Author := ''R2D2''\<rparr>))
     = [''Title'', ''Author'']"
proof -
  let ?f = "sample_form\<lparr>Form.Title := '''', Form.Author := ''R2D2''\<rparr>"
  let ?g = "sample_form\<lparr>Form.Title := ''''\<rparr>"
  let ?l = "sample_lib\<lparr>json_Decode := (\<lambda>b. Inr ?f), json_Marshal := (\<lambda>v. Inr (json_plain v))\<rparr>"
  let ?k = "sample_lib\<lparr>json_Decode := (\<lambda>b. Inr ?g), json_Marshal := (\<lambda>v. Inr (json_plain v))\<rparr>"
  let ?api = "New (sample_repo [] 1 None) (validator_Struct sample_lib)"
  have same: "validator_Struct ?l = validator_Struct sample_lib"
    by (rule ext) (simp add: validator_Struct_def field_errors_def Form_validate_tags_def
        isURL_def sample_lib_def)
  have same_g: "validator_Struct ?k = validator_Struct sample_lib"
    by (rule ext) (simp add: validator_Struct_def field_errors_def Form_validate_tags_def
        isURL_def sample_lib_def)
  have f1: "json_Decode ?l (Body sample_request) = Inr ?f" by simp
  have g1: "json_Decode ?k (Body sample_request) = Inr ?g" by simp
  have f2: "validator ?api = validator_Struct ?l" by (simp add: New_def same)
  have g2: "validator ?api = validator_Struct ?k" by (simp add: New_def same_g)
  have f3: "list_ex (field_violated ?l ?f) Form_validate_tags" by code_simp
  have g3: "list_ex (field_violated ?k ?g) Form_validate_tags" by code_simp
  have f5: "json_plain (JArray (map (violation_json ?l ?f)
              (filter (field_violated ?l ?f) Form_validate_tags)))
           = ''[{\"field\":\"Title\",\"rule\":\"required\"},{\"field\":\"Author\",\"rule\":\"alphaspace\"}]''"
    by code_simp
  have g5: "json_plain (JArray (map (violation_json ?k ?g)
              (filter (field_violated ?k ?g) Form_validate_tags)))
           = ''[{\"field\":\"Title\",\"rule\":\"required\"}]''"
    by code_simp
  have f4: "json_Marshal ?l (JArray (map (violation_json ?l ?f)
              (filter (field_violated ?l ?f) Form_validate_tags)))
           = Inr ''[{\"field\":\"Title\",\"rule\":\"required\"},{\"field\":\"Author\",\"rule\":\"alphaspace\"}]''"
    using f5 by simp
  have g4: "json_Marshal ?k (JArray (map (violation_json ?k ?g)
              (filter (field_violated ?k ?g) Form_validate_tags)))
           = Inr ''[{\"field\":\"Title\",\"rule\":\"required\"}]''"
    using g5 by simp
  have f6: "map fst (filter (field_violated ?l ?f) Form_validate_tags) = [''Title'', ''Author'']"
    by code_simp
  show ?thesis
    using Create_reports_every_violated_field [OF f1 f2 f3 f4, where e = sample_err_pkg and db = "()"]
      Create_reports_every_violated_field [OF g1 g2 g3 g4, where e = sample_err_pkg and db = "()"]
      f6 same
    by (simp add: New_def)
qed

lemma logging_Update:
  "repo_Update (logging_Repository repo) b (db, log)
   = (case repo_Update repo b db of (res, db1) \<Rightarrow> (res, (db1, log @ [Call_Update b])))"
  by (simp add: logging_Repository_def)

text \<open>
  C7. When the path identifier parses and the Form decodes and passes validation,
  \<open>Update\<close> calls \<open>Repository.Update\<close> once, with the model mapped from the Form and
  its identifier set to the UUID parsed from the path, whatever the Form holds.
\<close>

theorem Update_passes_path_identifier:
  assumes "uuid_Parse l (chi_URLParam r ''id'') = Inr uid"
    and "json_Decode l (Body r) = Inr form"
    and "validator api form = []"
    and "repository api = logging_Repository repo"
  shows "snd (snd (API_Update api l e w r (db, log)))
           = log @ [Call_Update ((Form_ToModel form)\<lparr>Book.ID := uid\<rparr>)]
       \<and> Book.ID ((Form_ToModel form)\<lparr>Book.ID := uid\<rparr>) = uid"
  using assms
  by (auto simp: API_Update_def logging_Update Let_def split: prod.splits)

theorem Update_passes_path_identifier_witness:
  "snd (snd (API_Update (New (logging_Repository (sample_repo [] 1 None)) (validator_Struct sample_lib))
        (sample_lib\<lparr>json_Decode := (\<lambda>b. Inr sample_form)\<rparr>)
        sample_err_pkg new_ResponseWriter sample_request ((), [])))
     = [Call_Update ((Form_ToModel sample_form)\<lparr>Book.ID := 1\<rparr>)]"
proof -
  let ?l = "sample_lib\<lparr>json_Decode := (\<lambda>b. Inr sample_form)\<rparr>"
  let ?api = "New (logging_Repository (sample_repo [] 1 None)) (validator_Struct sample_lib)"
  have 1: "uuid_Parse ?l (chi_URLParam sample_request ''id'') = Inr 1"
    by (simp add: sample_lib_def sample_request_def chi_URLParam_def)
  have 2: "json_Decode ?l (Body sample_request) = Inr sample_form" by simp
  have v: "validator_Struct sample_lib sample_form = []" by code_simp
  have 3: "validator ?api sample_form = []" by (simp add: New_def v)
  have 4: "repository ?api = logging_Repository (sample_repo [] 1 None)" by (simp add: New_def)
  show ?thesis
    using Update_passes_path_identifier [OF 1 2 3 4, where e = sample_err_pkg
        and w = new_ResponseWriter and db = "()" and log = "[]"]
    by simp
qed

text \<open>
  C8. In \<open>Update\<close> and in \<open>Delete\<close>, when the repository call returns no error, zero
  rows affected give status 404 and any other row count gives status 200; the body is
  empty in both cases.
\<close>

theorem rows_affected_decide_not_found:
  assumes "uuid_Parse l (chi_URLParam r ''id'') = Inr uid"
  shows "(json_Decode l (Body r) = Inr form \<longrightarrow> validator api form = [] \<longrightarrow>
          repo_Update (repository api) ((Form_ToModel form)\<lparr>Book.ID := uid\<rparr>) db
            = ((rows, None), db1) \<longrightarrow>
          API_Update api l e new_ResponseWriter r db
            = (if rows = 0 then \<lparr>wroteHeader = Some 404, body = []\<rparr> else new_ResponseWriter, db1)
          \<and> status (fst (API_Update api l e new_ResponseWriter r db))
              = (if rows = 0 then 404 else 200)
          \<and> body (fst (API_Update api l e new_ResponseWriter r db)) = [])
       \<and> (repo_Delete (repository api) uid db = ((rows', None), db1') \<longrightarrow>
          API_Delete api l e new_ResponseWriter r db
            = (if rows' = 0 then \<lparr>wroteHeader = Some 404, body = []\<rparr> else new_ResponseWriter, db1')
          \<and> status (fst (API_Delete api l e new_ResponseWriter r db))
              = (if rows' = 0 then 404 else 200)
          \<and> body (fst (API_Delete api l e new_ResponseWriter r db)) = [])"
  using assms
  by (simp add: API_Update_def API_Delete_def)

theorem rows_affected_decide_not_found_witness:
  "API_Update (New (sample_repo [] 0 None) (validator_Struct sample_lib))
      (sample_lib\<lparr>json_Decode := (\<lambda>b. Inr sample_form)\<rparr>)
      sample_err_pkg new_ResponseWriter sample_request ()
    = (\<lparr>wroteHeader = Some 404, body = []\<rparr>, ())
   \<and> API_Delete (New (sample_repo [] 3 None) (validator_Struct sample_lib))
      (sample_lib\<lparr>json_Decode := (\<lambda>b. Inr sample_form)\<rparr>)
      sample_err_pkg new_ResponseWriter sample_request ()
    = (new_ResponseWriter, ())"
proof -
  let ?l = "sample_lib\<lparr>json_Decode := (\<lambda>b. Inr sample_form)\<rparr>"
  have 1: "uuid_Parse ?l (chi_URLParam sample_request ''id'') = Inr 1"
    by (simp add: sample_lib_def sample_request_def chi_URLParam_def)
  have v: "validator_Struct sample_lib sample_form = []" by code_simp
  show ?thesis
    using rows_affected_decide_not_found [OF 1,
        where api = "New (sample_repo [] 0 None) (validator_Struct sample_lib)"
          and form = sample_form and db = "()" and ?db1.0 = "()" and rows = 0
          and e = sample_err_pkg]
      rows_affected_decide_not_found [OF 1,
        where api = "New (sample_repo [] 3 None) (validator_Struct sample_lib)"
          and db = "()" and ?db1' = "()" and rows' = 3 and e = sample_err_pkg]
      v
    by (simp add: New_def sample_repo_def)
qed

text \<open>
  C9. Whenever \<open>Repository.Create\<close> returns no error, \<open>Create\<close> answers with status 201
  and an empty body, whatever the count of rows affected, zero included.
\<close>

theorem Create_ignores_rows:
  assumes "json_Decode l (Body r) = Inr form"
    and "validator api form = []"
    and "repo_Create (repository api) ((Form_ToModel form)\<lparr>Book.ID := uuid_New l\<rparr>) db
           = ((rows, None), db1)"
  shows "API_Create api l e new_ResponseWriter r db
           = (\<lparr>wroteHeader = Some 201, body = []\<rparr>, db1)"
  using assms by (simp add: API_Create_def)

theorem Create_ignores_rows_witness:
  "API_Create (New (sample_repo [] 0 None) (validator_Struct sample_lib))
      (sample_lib\<lparr>json_Decode := (\<lambda>b. Inr sample_form)\<rparr>)
      sample_err_pkg new_ResponseWriter sample_request ()
    = (\<lparr>wroteHeader = Some 201, body = []\<rparr>, ())"
proof -
  let ?l = "sample_lib\<lparr>json_Decode := (\<lambda>b. Inr sample_form)\<rparr>"
  let ?api = "New (sample_repo [] 0 None) (validator_Struct sample_lib)"
  have 1: "json_Decode ?l (Body sample_request) = Inr sample_form" by simp
  have v: "validator_Struct sample_lib sample_form = []" by code_simp
  have 2: "validator ?api sample_form = []" by (simp add: New_def v)
  have 3: "repo_Create (repository ?api) ((Form_ToModel sample_form)\<lparr>Book.ID := uuid_New ?l\<rparr>) ()
           = ((0, None), ())"
    by (simp add: New_def sample_repo_def)
  show ?thesis
    using Create_ignores_rows [OF 1 2 3, where e = sample_err_pkg] by simp
qed

text \<open>
  C10. With the path identifier parsed, \<open>Read\<close> answers 404 exactly when the error of
  \<open>Repository.Read\<close> is the value \<open>gorm.ErrRecordNotFound\<close> itself. Every other error,
  one that wraps \<open>ErrRecordNotFound\<close> included, gives status 500 with the body
  \<open>RespDBDataAccessFailure\<close>.
\<close>

theorem Read_not_found_only_on_sentinel:
  assumes "uuid_Parse l (chi_URLParam r ''id'') = Inr uid"
    and "repo_Read (repository api) uid db = ((book, err), db1)"
  shows "(err = Some ErrRecordNotFound \<longrightarrow>
            API_Read api l e new_ResponseWriter r db
              = (\<lparr>wroteHeader = Some 404, body = []\<rparr>, db1))
       \<and> (err \<noteq> None \<and> err \<noteq> Some ErrRecordNotFound \<longrightarrow>
            API_Read api l e new_ResponseWriter r db
              = (\<lparr>wroteHeader = Some 500, body = RespDBDataAccessFailure e\<rparr>, db1))
       \<and> (status (fst (API_Read api l e new_ResponseWriter r db)) = 404
            \<longleftrightarrow> err = Some ErrRecordNotFound)"
  using assms
  by (auto simp: API_Read_def Encoder_Encode_def ServerError_def WriteHeader_def Write_def
      status_def new_ResponseWriter_def split: sum.splits)

theorem Read_not_found_only_on_sentinel_witness:
  "errors_Is (WrapError ''read book'' ErrRecordNotFound) ErrRecordNotFound
   \<and> API_Read (New (sample_repo [] 0 (Some (WrapError ''read book'' ErrRecordNotFound)))
        (validator_Struct sample_lib))
        sample_lib sample_err_pkg new_ResponseWriter sample_request ()
     = (\<lparr>wroteHeader = Some 500, body = ''db data access failure''\<rparr>, ())
   \<and> API_Read (New (sample_repo [] 0 (Some ErrRecordNotFound)) (validator_Struct sample_lib))
        sample_lib sample_err_pkg new_ResponseWriter sample_request ()
     = (\<lparr>wroteHeader = Some 404, body = []\<rparr>, ())"
proof -
  have 1: "uuid_Parse sample_lib (chi_URLParam sample_request ''id'') = Inr 1"
    by (simp add: sample_lib_def sample_request_def chi_URLParam_def)
  have 2: "repo_Read (repository (New (sample_repo [] 0 err) (validator_Struct sample_lib))) 1 ()
           = (((Form_ToModel sample_form)\<lparr>Book.ID := 1\<rparr>, err), ())" for err
    by (simp add: New_def sample_repo_def)
  show ?thesis
    using Read_not_found_only_on_sentinel [OF 1 2, where e = sample_err_pkg
        and err = "Some (WrapError ''read book'' ErrRecordNotFound)"]
      Read_not_found_only_on_sentinel [OF 1 2, where e = sample_err_pkg
        and err = "Some ErrRecordNotFound"]
    by (simp add: sample_err_pkg_def)
qed

end
